theory Spec2Isabelle
  imports Main
begin

section \<open>Data model (\<^verbatim>\<open>types/issue.ts\<close>)\<close>

text \<open>
  The TypeScript unions of string literals are datatypes. \<^verbatim>\<open>Dependency\<close> and
  \<^verbatim>\<open>Issue\<close> are the interfaces of the source; an optional field \<^verbatim>\<open>f?: T\<close> is a
  \<open>T option\<close> (\<open>None\<close> is \<^verbatim>\<open>undefined\<close>). \<^verbatim>\<open>Issue\<close> refers to itself through
  \<^verbatim>\<open>dependents?: Issue[]\<close>, so it is a datatype with selectors rather than a record.
  Field names are the source's, except \<open>id'\<close>, \<open>type'\<close> and \<open>notes'\<close> (primed: \<open>id\<close> is the
  identity function of HOL, \<open>notes\<close> a keyword) and the two provenance fields of a dependency, which
  carry the prefix \<open>dep_\<close> because \<^verbatim>\<open>created_at\<close> is also a field of an issue.
  Timestamps are ISO strings, as in the source; \<^verbatim>\<open>number\<close> fields that are only
  stored, never computed with, are integers.
\<close>

datatype Status = Open | In_progress | Blocked | Closed

datatype IssueType = Bug | Feature | Task | Epic | Chore

datatype DependencyType = Blocks | Related | Parent_child | Discovered_from

datatype Dependency = Dependency
  (issue_id: string)
  (depends_on_id: string)
  (type': DependencyType)
  (dep_created_at: string)
  (dep_created_by: string)

datatype Issue = Issue
  (id': string)
  (title: string)
  (description: "string option")
  (design: "string option")
  (acceptance_criteria: "string option")
  (notes': "string option")
  (status: Status)
  (priority: int)
  (issue_type: IssueType)
  (assignee: "string option")
  (estimated_minutes: "int option")
  (created_at: string)
  (updated_at: string)
  (closed_at: "string option")
  (external_ref: "string option")
  (dependencies: "Dependency list option")
  (dependents: "Issue list option")
  (labels: "string list option")

section \<open>Dependency resolver (\<^verbatim>\<open>lib/jsonl.ts\<close>)\<close>

text \<open>
  \<^verbatim>\<open>issue.dependencies?.filter(dep => dep.type === 'blocks') || []\<close>: the
  \<^verbatim>\<open>blocks\<close>-typed edges of an issue, the empty list when the field is absent.
\<close>

definition blockingDeps :: "Issue \<Rightarrow> Dependency list" where
  "blockingDeps issue =
     (case dependencies issue of
        None \<Rightarrow> []
      | Some deps \<Rightarrow> filter (\<lambda>dep. type' dep = Blocks) deps)"

text \<open>
  The callback given to \<^verbatim>\<open>some\<close> in both functions:
  \<^verbatim>\<open>const blocker = issues.find(i => i.id === dep.depends_on_id)
  return blocker && ['open', 'in_progress', 'blocked'].includes(blocker.status)\<close>.
  \<^verbatim>\<open>find\<close> returns the first match or \<^verbatim>\<open>undefined\<close>, and \<^verbatim>\<open>undefined && _\<close>
  is falsy.
\<close>

definition findIssue :: "Issue list \<Rightarrow> string \<Rightarrow> Issue option" where
  "findIssue issues x = find (\<lambda>i. id' i = x) issues"

definition openBlocker :: "Issue list \<Rightarrow> Dependency \<Rightarrow> bool" where
  "openBlocker issues dep =
     (case findIssue issues (depends_on_id dep) of
        None \<Rightarrow> False
      | Some blocker \<Rightarrow> status blocker \<in> set [Open, In_progress, Blocked])"

definition getReadyIssues :: "Issue list \<Rightarrow> Issue list" where
  "getReadyIssues issues =
     (let openIssues = filter (\<lambda>i. status i = Open) issues
      in filter (\<lambda>issue.
           let blockingDeps = blockingDeps issue
           in if length blockingDeps = 0 then True
              else \<not> list_ex (openBlocker issues) blockingDeps) openIssues)"

definition getBlockedIssues :: "Issue list \<Rightarrow> Issue list" where
  "getBlockedIssues issues =
     filter (\<lambda>issue.
       if status issue = Closed then False
       else let blockingDeps = blockingDeps issue
            in list_ex (openBlocker issues) blockingDeps) issues"

text \<open>An issue without optional fields, for concrete collections.\<close>

definition mkIssue :: "string \<Rightarrow> Status \<Rightarrow> Dependency list option \<Rightarrow> Issue" where
  "mkIssue x s deps =
     Issue x ''t'' None None None None s 2 Task None None
       ''2025-01-01T00:00:00Z'' ''2025-01-01T00:00:00Z'' None None deps None None"

definition mkDep :: "string \<Rightarrow> string \<Rightarrow> DependencyType \<Rightarrow> Dependency" where
  "mkDep a b t = Dependency a b t ''2025-01-01T00:00:00Z'' ''user''"

section \<open>Identifier allocator (\<^verbatim>\<open>generateNextIssueId\<close>)\<close>

text \<open>
  \<^verbatim>\<open>issue.id.match(/(\d+)$/)\<close>: without the \<^verbatim>\<open>u\<close> and \<^verbatim>\<open>m\<close> flags, \<^verbatim>\<open>\d\<close> is an ASCII
  digit and \<^verbatim>\<open>$\<close> is the end of the string; the leftmost match of a greedy \<^verbatim>\<open>\d+\<close>
  that ends there is the whole run of digits at the end of the id. The match is
  \<^verbatim>\<open>null\<close> exactly when that run is empty.
\<close>

definition isDigit :: "char \<Rightarrow> bool" where
  "isDigit c = (c \<in> set ''0123456789'')"

definition digitValue :: "char \<Rightarrow> nat" where
  "digitValue c = of_char c - 48"

definition trailingDigits :: "string \<Rightarrow> string" where
  "trailingDigits s = rev (takeWhile isDigit (rev s))"

definition decimalValue :: "string \<Rightarrow> nat" where
  "decimalValue ds = foldl (\<lambda>acc c. 10 * acc + digitValue c) 0 ds"

text \<open>
  A JavaScript \<^verbatim>\<open>number\<close> is an IEEE 754 double. The only numbers this function
  computes with are non-negative integers, so they are modelled as \<open>nat\<close> together
  with the rounding the arithmetic performs: \<open>round53\<close> rounds to the nearest integer
  that has a 53-bit significand, ties to the even significand. It is the identity
  below \<open>2 ^ 53\<close>. \<open>shift53 n\<close> is the number of low bits that do not fit.
  (Doubles end near \<open>2 ^ 1024\<close>, and \<^verbatim>\<open>parseInt\<close> may approximate a run of more
  than twenty digits; both happen far above \<open>2 ^ 53\<close>, where \<open>numberToString\<close> below
  gives no answer.)
\<close>

function shift53 :: "nat \<Rightarrow> nat" where
  "shift53 n = (if n < 2 ^ 53 then 0 else Suc (shift53 (n div 2)))"
  by pat_completeness auto
termination
  by (relation "measure (\<lambda>n. n)") auto

declare shift53.simps [simp del]

definition round53 :: "nat \<Rightarrow> nat" where
  "round53 n =
     (let e = shift53 n; q = n div 2 ^ e; r = n mod 2 ^ e
      in if 2 * r < 2 ^ e \<or> (2 * r = 2 ^ e \<and> even q) then q * 2 ^ e
         else (q + 1) * 2 ^ e)"

text \<open>\<^verbatim>\<open>parseInt(match[1], 10)\<close> on a non-empty run of digits.\<close>

definition parseInt10 :: "string \<Rightarrow> nat" where
  "parseInt10 ds = round53 (decimalValue ds)"

function decimal :: "nat \<Rightarrow> string" where
  "decimal n =
     (if n < 10 then [''0123456789'' ! n]
      else decimal (n div 10) @ [''0123456789'' ! (n mod 10)])"
  by pat_completeness auto
termination
  by (relation "measure (\<lambda>n. n)") auto

declare decimal.simps [simp del]

text \<open>
  The template literal converts the number to a string. For an integer up to
  \<open>2 ^ 53\<close> that is its decimal numeral. Above it JavaScript prints the shortest
  digits that read back as the same double, and from \<open>10 ^ 21\<close> on an exponent;
  this development does not model those, and says so with \<open>None\<close>.
\<close>

definition numberToString :: "nat \<Rightarrow> string option" where
  "numberToString n = (if n \<le> 2 ^ 53 then Some (decimal n) else None)"

text \<open>
  \<^verbatim>\<open>Math.max(...numericIds)\<close>; the source calls it on a non-empty array only
  (on an empty one JavaScript answers \<^verbatim>\<open>-Infinity\<close>).
\<close>

fun mathMax :: "nat list \<Rightarrow> nat" where
  "mathMax [] = 0"
| "mathMax (x # xs) = fold max xs x"

definition numericId :: "string \<Rightarrow> nat" where
  "numericId x = (case trailingDigits x of [] \<Rightarrow> 0 | d # ds \<Rightarrow> parseInt10 (d # ds))"

text \<open>
  \<^verbatim>\<open>.filter(id => !isNaN(id))\<close> keeps every element: \<^verbatim>\<open>parseInt\<close> of a run of
  digits is never \<^verbatim>\<open>NaN\<close>.
\<close>

definition generateNextIssueId :: "Issue list \<Rightarrow> string option" where
  "generateNextIssueId issues =
     (let numericIds = filter (\<lambda>n. True) (map (\<lambda>issue. numericId (id' issue)) issues);
          maxId = (if length numericIds > 0 then mathMax numericIds else 0)
      in map_option (\<lambda>s. ''BD-'' @ s) (numberToString (round53 (maxId + 1))))"

text \<open>
  The claim's reading of the algorithm, for comparison: the largest numeric value of
  a trailing digit run, ids without one giving no candidate, \<open>0\<close> when there is none.
\<close>

definition maxSuffix :: "Issue list \<Rightarrow> nat" where
  "maxSuffix issues =
     Max (set (0 # map decimalValue
       (filter (\<lambda>ds. ds \<noteq> []) (map (\<lambda>issue. trailingDigits (id' issue)) issues))))"

definition withId :: "string \<Rightarrow> Issue" where
  "withId x = mkIssue x Open None"

section \<open>Side panel: adding a dependency (\<^verbatim>\<open>IssueSidePanel.tsx\<close>)\<close>

text \<open>
  \<^verbatim>\<open>Partial<Issue>\<close>: every key may be missing (\<open>None\<close>). A key of an optional
  field may also be present and \<^verbatim>\<open>undefined\<close> (\<open>Some None\<close>).
\<close>

record PartialIssue =
  p_id :: "string option"
  p_title :: "string option"
  p_description :: "string option option"
  p_design :: "string option option"
  p_acceptance_criteria :: "string option option"
  p_notes :: "string option option"
  p_status :: "Status option"
  p_priority :: "int option"
  p_issue_type :: "IssueType option"
  p_assignee :: "string option option"
  p_estimated_minutes :: "int option option"
  p_created_at :: "string option"
  p_updated_at :: "string option"
  p_closed_at :: "string option option"
  p_external_ref :: "string option option"
  p_dependencies :: "Dependency list option option"
  p_dependents :: "Issue list option option"
  p_labels :: "string list option option"

text \<open>
  A whole issue seen as a partial one (\<^verbatim>\<open>setEditedIssue(issue)\<close>): the draft is the
  store's own object, so a key that the issue does not have is missing in the draft
  too.
\<close>

definition asPartial :: "Issue \<Rightarrow> PartialIssue" where
  "asPartial i =
     \<lparr>p_id = Some (id' i), p_title = Some (title i),
      p_description = map_option Some (description i),
      p_design = map_option Some (design i),
      p_acceptance_criteria = map_option Some (acceptance_criteria i),
      p_notes = map_option Some (notes' i),
      p_status = Some (status i), p_priority = Some (priority i),
      p_issue_type = Some (issue_type i),
      p_assignee = map_option Some (assignee i),
      p_estimated_minutes = map_option Some (estimated_minutes i),
      p_created_at = Some (created_at i), p_updated_at = Some (updated_at i),
      p_closed_at = map_option Some (closed_at i),
      p_external_ref = map_option Some (external_ref i),
      p_dependencies = map_option Some (dependencies i),
      p_dependents = map_option Some (dependents i),
      p_labels = map_option Some (labels i)\<rparr>"

text \<open>
  \<^verbatim>\<open>String.prototype.trim\<close> removes white space and line terminators at both
  ends; on 8-bit characters these are the seven below.
\<close>

definition isSpace :: "char \<Rightarrow> bool" where
  "isSpace c = (c \<in> set [CHR 0x09, CHR 0x0A, CHR 0x0B, CHR 0x0C, CHR 0x0D, CHR 0x20, CHR 0xA0])"

definition trim :: "string \<Rightarrow> string" where
  "trim s = rev (dropWhile isSpace (rev (dropWhile isSpace s)))"

text \<open>
  The component state that \<^verbatim>\<open>handleAddDependency\<close> reads and writes
  (\<^verbatim>\<open>useState\<close> cells). The error cell is \<open>error'\<close>, the store having an \<open>error\<close>
  of its own.
\<close>

record Panel =
  editedIssue :: "PartialIssue option"
  newDependencyId :: string
  newDependencyType :: DependencyType
  error' :: "string option"

text \<open>\<^verbatim>\<open>const issue = issueId ? issues.find(i => i.id === issueId) : null\<close>\<close>

definition panelIssue :: "Issue list \<Rightarrow> string option \<Rightarrow> Issue option" where
  "panelIssue issues issueId =
     (case issueId of
        None \<Rightarrow> None
      | Some x \<Rightarrow> if x = [] then None else findIssue issues x)"

text \<open>\<^verbatim>\<open>editedIssue.dependencies || []\<close>\<close>

definition existingDeps :: "PartialIssue \<Rightarrow> Dependency list" where
  "existingDeps edited =
     (case p_dependencies edited of Some (Some deps) \<Rightarrow> deps | _ \<Rightarrow> [])"

text \<open>
  \<open>now\<close> is \<^verbatim>\<open>new Date().toISOString()\<close>. The function reads the store's
  collection and writes component state only.
\<close>

definition handleAddDependency ::
  "string \<Rightarrow> Issue list \<Rightarrow> string option \<Rightarrow> Panel \<Rightarrow> Panel" where
  "handleAddDependency now issues issueId panel =
     (case (editedIssue panel, panelIssue issues issueId) of
        (Some edited, Some issue) \<Rightarrow>
          if trim (newDependencyId panel) = [] then panel
          else if list_ex (\<lambda>d. depends_on_id d = trim (newDependencyId panel))
                    (existingDeps edited)
          then panel\<lparr>error' := Some ''Dependency already exists''\<rparr>
          else (case findIssue issues (trim (newDependencyId panel)) of
                  None \<Rightarrow>
                    panel\<lparr>error' :=
                      Some (''Issue '' @ trim (newDependencyId panel) @ '' not found'')\<rparr>
                | Some targetIssue \<Rightarrow>
                    let newDep = Dependency (id' issue) (trim (newDependencyId panel))
                                   (newDependencyType panel) now ''system''
                    in panel\<lparr>editedIssue :=
                               Some (edited\<lparr>p_dependencies :=
                                 Some (Some (existingDeps edited @ [newDep]))\<rparr>),
                             newDependencyId := [],
                             error' := None\<rparr>)
      | _ \<Rightarrow> panel)"

section \<open>Store (\<^verbatim>\<open>store/useIssueStore.ts\<close>)\<close>

text \<open>\<^verbatim>\<open>{ ...issue, ...updates, updated_at: now }\<close>: a key of \<open>updates\<close> wins.\<close>

definition orElse :: "'a option \<Rightarrow> 'a \<Rightarrow> 'a" where
  "orElse p v = (case p of None \<Rightarrow> v | Some w \<Rightarrow> w)"

definition spreadUpdates :: "string \<Rightarrow> PartialIssue \<Rightarrow> Issue \<Rightarrow> Issue" where
  "spreadUpdates now updates issue =
     Issue (orElse (p_id updates) (id' issue))
       (orElse (p_title updates) (title issue))
       (orElse (p_description updates) (description issue))
       (orElse (p_design updates) (design issue))
       (orElse (p_acceptance_criteria updates) (acceptance_criteria issue))
       (orElse (p_notes updates) (notes' issue))
       (orElse (p_status updates) (status issue))
       (orElse (p_priority updates) (priority issue))
       (orElse (p_issue_type updates) (issue_type issue))
       (orElse (p_assignee updates) (assignee issue))
       (orElse (p_estimated_minutes updates) (estimated_minutes issue))
       (orElse (p_created_at updates) (created_at issue))
       now
       (orElse (p_closed_at updates) (closed_at issue))
       (orElse (p_external_ref updates) (external_ref issue))
       (orElse (p_dependencies updates) (dependencies issue))
       (orElse (p_dependents updates) (dependents issue))
       (orElse (p_labels updates) (labels issue))"

text \<open>\<^verbatim>\<open>{ ...issue, status: 'closed' }\<close>\<close>

definition withStatusClosed :: "Issue \<Rightarrow> Issue" where
  "withStatusClosed issue =
     Issue (id' issue) (title issue) (description issue) (design issue)
       (acceptance_criteria issue) (notes' issue) Closed (priority issue)
       (issue_type issue) (assignee issue) (estimated_minutes issue) (created_at issue)
       (updated_at issue) (closed_at issue) (external_ref issue) (dependencies issue)
       (dependents issue) (labels issue)"

text \<open>
  What \<^verbatim>\<open>await fetch(...)\<close> followed by \<^verbatim>\<open>await response.json()\<close> can do:
  \<^verbatim>\<open>fetch\<close> rejects (the request did not reach the Backend; the message is the
  error's), or it resolves to a response with its \<^verbatim>\<open>ok\<close> flag, whose body parses to
  an issue or does not (\<^verbatim>\<open>json()\<close> rejects, with its message).
\<close>

datatype Body = Json Issue | Malformed string

datatype FetchOutcome = FetchRejected string | Response bool Body

record IssueFilter =
  f_status :: "Status list option"
  f_priority :: "int list option"
  f_issue_type :: "IssueType list option"
  f_assignee :: "string list option"
  f_search :: "string option"

text \<open>The state of the store; \<open>ws\<close> is a handle of the socket.\<close>

record IssueStore =
  issues :: "Issue list"
  filters :: IssueFilter
  isLoading :: bool
  error :: "string option"
  ws :: "nat option"

text \<open>
  \<^verbatim>\<open>updateIssue\<close>. The optimistic \<^verbatim>\<open>set\<close> runs before the first \<^verbatim>\<open>await\<close>; the rest
  runs when the request settles, on whatever the store holds then. The result is the
  promise's: \<open>Inl\<close> the message of the error it rejects with, \<open>Inr\<close> the issue.
\<close>

definition updateIssue_optimistic ::
  "string \<Rightarrow> string \<Rightarrow> PartialIssue \<Rightarrow> IssueStore \<Rightarrow> IssueStore" where
  "updateIssue_optimistic now x updates st =
     st\<lparr>issues := map (\<lambda>issue. if id' issue = x then spreadUpdates now updates issue else issue)
                     (issues st)\<rparr>"

definition updateIssue_settle ::
  "Issue list \<Rightarrow> string \<Rightarrow> FetchOutcome \<Rightarrow> IssueStore \<Rightarrow> (string + Issue) \<times> IssueStore" where
  "updateIssue_settle prevIssues x outcome st =
     (case outcome of
        FetchRejected msg \<Rightarrow> (Inl msg, st\<lparr>error := Some msg\<rparr>)
      | Response ok body \<Rightarrow>
          if \<not> ok
          then (Inl ''Failed to update issue'',
                st\<lparr>issues := prevIssues, error := Some ''Failed to update issue''\<rparr>)
          else (case body of
                  Malformed msg \<Rightarrow> (Inl msg, st\<lparr>error := Some msg\<rparr>)
                | Json updatedIssue \<Rightarrow>
                    (Inr updatedIssue,
                     st\<lparr>issues := map (\<lambda>issue. if id' issue = x then updatedIssue else issue)
                                     (issues st)\<rparr>)))"

definition updateIssue ::
  "string \<Rightarrow> string \<Rightarrow> PartialIssue \<Rightarrow> FetchOutcome \<Rightarrow> IssueStore
     \<Rightarrow> (string + Issue) \<times> IssueStore" where
  "updateIssue now x updates outcome st =
     (let prevIssues = issues st
      in updateIssue_settle prevIssues x outcome (updateIssue_optimistic now x updates st))"

text \<open>\<^verbatim>\<open>deleteIssue\<close> closes the issue; it resolves to nothing.\<close>

definition deleteIssue_optimistic :: "string \<Rightarrow> IssueStore \<Rightarrow> IssueStore" where
  "deleteIssue_optimistic x st =
     st\<lparr>issues := map (\<lambda>issue. if id' issue = x then withStatusClosed issue else issue)
                     (issues st)\<rparr>"

definition deleteIssue_settle ::
  "Issue list \<Rightarrow> string \<Rightarrow> FetchOutcome \<Rightarrow> IssueStore \<Rightarrow> (string + unit) \<times> IssueStore" where
  "deleteIssue_settle prevIssues x outcome st =
     (case outcome of
        FetchRejected msg \<Rightarrow> (Inl msg, st\<lparr>error := Some msg\<rparr>)
      | Response ok body \<Rightarrow>
          if \<not> ok
          then (Inl ''Failed to close issue'',
                st\<lparr>issues := prevIssues, error := Some ''Failed to close issue''\<rparr>)
          else (case body of
                  Malformed msg \<Rightarrow> (Inl msg, st\<lparr>error := Some msg\<rparr>)
                | Json closedIssue \<Rightarrow>
                    (Inr (),
                     st\<lparr>issues := map (\<lambda>issue. if id' issue = x then closedIssue else issue)
                                     (issues st)\<rparr>)))"

definition deleteIssue ::
  "string \<Rightarrow> FetchOutcome \<Rightarrow> IssueStore \<Rightarrow> (string + unit) \<times> IssueStore" where
  "deleteIssue x outcome st =
     (let prevIssues = issues st
      in deleteIssue_settle prevIssues x outcome (deleteIssue_optimistic x st))"

text \<open>
  The start of \<^verbatim>\<open>fetchIssues\<close>, up to its first \<^verbatim>\<open>await\<close>; the reload itself
  arrives later.
\<close>

definition fetchIssues_begin :: "IssueStore \<Rightarrow> IssueStore" where
  "fetchIssues_begin st = st\<lparr>isLoading := True, error := None\<rparr>"

text \<open>
  \<^verbatim>\<open>ws.onmessage\<close>: the messages of the push channel whose \<^verbatim>\<open>data\<close> is an issue,
  the refresh signal, and any other \<^verbatim>\<open>type\<close>, which the \<^verbatim>\<open>switch\<close> ignores.
\<close>

datatype Message =
  IssueCreated Issue
| IssueUpdated Issue
| IssueDeleted Issue
| IssuesRefresh
| OtherMessage

fun onmessage :: "Message \<Rightarrow> IssueStore \<Rightarrow> IssueStore" where
  "onmessage (IssueCreated data) st =
     (let exists = list_ex (\<lambda>issue. id' issue = id' data) (issues st)
      in if exists then st else st\<lparr>issues := data # issues st\<rparr>)"
| "onmessage (IssueUpdated data) st =
     st\<lparr>issues := map (\<lambda>issue. if id' issue = id' data then data else issue) (issues st)\<rparr>"
| "onmessage (IssueDeleted data) st =
     st\<lparr>issues := filter (\<lambda>issue. id' issue \<noteq> id' data) (issues st)\<rparr>"
| "onmessage IssuesRefresh st = fetchIssues_begin st"
| "onmessage OtherMessage st = st"

text \<open>
  The side panel inside the application. The component takes the collection from the
  store (\<^verbatim>\<open>const { issues, updateIssue, createIssue } = useIssueStore()\<close>), and the
  click on the add button runs \<^verbatim>\<open>handleAddDependency\<close>, which calls the three
  setters of the component and none of the store's actions.
\<close>

record App =
  app_store :: IssueStore
  app_panel :: Panel

definition onAddDependency :: "string \<Rightarrow> string option \<Rightarrow> App \<Rightarrow> App" where
  "onAddDependency now issueId app =
     app\<lparr>app_panel :=
       handleAddDependency now (issues (app_store app)) issueId (app_panel app)\<rparr>"

definition emptyStore :: IssueStore where
  "emptyStore =
     \<lparr>issues = [],
      filters = \<lparr>f_status = None, f_priority = None, f_issue_type = None,
                 f_assignee = None, f_search = None\<rparr>,
      isLoading = False, error = None, ws = None\<rparr>"

section \<open>Auxiliary definitions for the statements\<close>

text \<open>
  Replacing the dependency list of an issue, and the issue stripped of every edge
  that is not of type \<^verbatim>\<open>blocks\<close>; used to say that such edges do not matter.
\<close>

definition withDependencies :: "Dependency list option \<Rightarrow> Issue \<Rightarrow> Issue" where
  "withDependencies deps issue =
     Issue (id' issue) (title issue) (description issue) (design issue)
       (acceptance_criteria issue) (notes' issue) (status issue) (priority issue)
       (issue_type issue) (assignee issue) (estimated_minutes issue) (created_at issue)
       (updated_at issue) (closed_at issue) (external_ref issue) deps
       (dependents issue) (labels issue)"

definition onlyBlockingDeps :: "Issue \<Rightarrow> Issue" where
  "onlyBlockingDeps issue =
     withDependencies (map_option (filter (\<lambda>d. type' d = Blocks)) (dependencies issue)) issue"

text \<open>
  The ready-work test in the specification's words: the status is \<^verbatim>\<open>open\<close> and
  every \<^verbatim>\<open>blocks\<close>-typed dependency points to an issue whose status is \<^verbatim>\<open>closed\<close>.
\<close>

definition readySpec :: "Issue list \<Rightarrow> Issue \<Rightarrow> bool" where
  "readySpec coll i =
     (status i = Open \<and>
      list_all (\<lambda>d. list_ex (\<lambda>b. id' b = depends_on_id d \<and> status b = Closed) coll)
        (filter (\<lambda>d. type' d = Blocks)
           (case dependencies i of None \<Rightarrow> [] | Some ds \<Rightarrow> ds)))"

text \<open>Concrete issues: \<open>A\<close> waits for \<open>B\<close>; \<open>A\<close> waits for an id that no issue has.\<close>

definition exA :: Issue where
  "exA = mkIssue ''A'' Open (Some [mkDep ''A'' ''B'' Blocks])"

definition exB :: Issue where
  "exB = mkIssue ''B'' Open None"

definition exGhost :: Issue where
  "exGhost = mkIssue ''A'' Open (Some [mkDep ''A'' ''ghost'' Blocks])"

text \<open>
  \<open>R\<close> is related to the open issue \<open>B\<close> and waits for nothing; \<open>G\<close> waits for an
  id that no issue has and is related to \<open>B\<close>.
\<close>

definition exR :: Issue where
  "exR = mkIssue ''R'' Open (Some [mkDep ''R'' ''B'' Related])"

definition exABR :: "Issue list" where
  "exABR = [exA, exB, exR]"

definition exG :: Issue where
  "exG = mkIssue ''G'' Open
     (Some [mkDep ''G'' ''ghost'' Blocks, mkDep ''G'' ''B'' Related])"

text \<open>A collection with one id at \<open>2 ^ 53\<close>.\<close>

definition exBig :: "Issue list" where
  "exBig = [withId ''BD-9007199254740992'']"

text \<open>
  A store that holds one open issue \<open>X\<close>, and a pushed record with the same id and
  another status.
\<close>

definition exOld :: Issue where
  "exOld = mkIssue ''X'' Open None"

definition exPushed :: Issue where
  "exPushed = mkIssue ''X'' Closed None"

definition exStoreX :: IssueStore where
  "exStoreX = emptyStore\<lparr>issues := [exOld]\<rparr>"

text \<open>The empty object \<^verbatim>\<open>{}\<close> as a partial issue.\<close>

definition noUpdates :: PartialIssue where
  "noUpdates =
     \<lparr>p_id = None, p_title = None, p_description = None, p_design = None,
      p_acceptance_criteria = None, p_notes = None, p_status = None, p_priority = None,
      p_issue_type = None, p_assignee = None, p_estimated_minutes = None,
      p_created_at = None, p_updated_at = None, p_closed_at = None, p_external_ref = None,
      p_dependencies = None, p_dependents = None, p_labels = None\<rparr>"

text \<open>
  Issue \<open>B\<close> waits for issue \<open>A\<close>. The side panel is open on \<open>A\<close>, in edit mode, with
  \<open>target\<close> typed into the dependency field; \<open>exDraft\<close> is the draft with the edge
  to \<open>target\<close> appended, \<open>exAdded\<close> the panel that holds it, and \<open>exSaved\<close> the store
  once \<^verbatim>\<open>handleSave\<close> has passed that draft to \<^verbatim>\<open>updateIssue\<close> (the call
  \<^verbatim>\<open>updateIssue(issue.id, editedIssue)\<close>), before the Backend answers.
\<close>

definition exCycleColl :: "Issue list" where
  "exCycleColl = [mkIssue ''A'' Open None, mkIssue ''B'' Open (Some [mkDep ''B'' ''A'' Blocks])]"

definition exPanel :: "string \<Rightarrow> DependencyType \<Rightarrow> Panel" where
  "exPanel target ty =
     \<lparr>editedIssue = Some (asPartial (mkIssue ''A'' Open None)), newDependencyId = target,
      newDependencyType = ty, error' = None\<rparr>"

definition exDraft :: "string \<Rightarrow> DependencyType \<Rightarrow> PartialIssue" where
  "exDraft target ty =
     (asPartial (mkIssue ''A'' Open None))
       \<lparr>p_dependencies :=
          Some (Some [Dependency ''A'' target ty ''2025-06-01T00:00:00Z'' ''system''])\<rparr>"

definition exAdded :: "string \<Rightarrow> DependencyType \<Rightarrow> Panel" where
  "exAdded target ty =
     \<lparr>editedIssue = Some (exDraft target ty), newDependencyId = [],
      newDependencyType = ty, error' = None\<rparr>"

definition exSaved :: "string \<Rightarrow> DependencyType \<Rightarrow> IssueStore" where
  "exSaved target ty =
     updateIssue_optimistic ''2025-06-01T00:00:01Z'' ''A'' (exDraft target ty)
       (emptyStore\<lparr>issues := exCycleColl\<rparr>)"

text \<open>
  Three issues, of which \<open>B\<close> waits for \<open>A\<close>; the application with the side panel
  open on \<open>B\<close>, in edit mode, and \<open>target\<close> typed into the dependency field.
\<close>

definition exB3 :: Issue where
  "exB3 = mkIssue ''B'' Open (Some [mkDep ''B'' ''A'' Blocks])"

definition exColl3 :: "Issue list" where
  "exColl3 = [mkIssue ''A'' Open None, exB3, mkIssue ''C'' Open None]"

definition exAppB :: "string \<Rightarrow> DependencyType \<Rightarrow> App" where
  "exAppB target ty =
     \<lparr>app_store = emptyStore\<lparr>issues := exColl3\<rparr>,
      app_panel = \<lparr>editedIssue = Some (asPartial exB3), newDependencyId = target,
                   newDependencyType = ty, error' = None\<rparr>\<rparr>"

section \<open>Facts about the resolver\<close>

lemma mkIssue_sel [simp]:
  "id' (mkIssue x s deps) = x"
  "status (mkIssue x s deps) = s"
  "dependencies (mkIssue x s deps) = deps"
  by (simp_all add: mkIssue_def)

lemma mkDep_sel [simp]:
  "issue_id (mkDep a b t) = a"
  "depends_on_id (mkDep a b t) = b"
  "type' (mkDep a b t) = t"
  by (simp_all add: mkDep_def)

lemma findIssue_None: "findIssue coll x = None \<longleftrightarrow> (\<forall>i \<in> set coll. id' i \<noteq> x)"
  by (auto simp: findIssue_def find_None_iff)

lemma findIssue_SomeD: "findIssue coll x = Some b \<Longrightarrow> b \<in> set coll \<and> id' b = x"
  by (auto simp: findIssue_def find_Some_iff)

lemma findIssue_distinct:
  assumes "distinct (map id' coll)"
  shows "findIssue coll x = Some b \<longleftrightarrow> b \<in> set coll \<and> id' b = x"
proof
  assume "findIssue coll x = Some b"
  then show "b \<in> set coll \<and> id' b = x" by (rule findIssue_SomeD)
next
  assume b: "b \<in> set coll \<and> id' b = x"
  then have "findIssue coll x \<noteq> None" by (auto simp: findIssue_None)
  then obtain c where c: "findIssue coll x = Some c" by auto
  then have "c \<in> set coll" "id' c = x" using findIssue_SomeD by blast+
  with b assms have "c = b" by (metis distinct_map inj_onD)
  with c show "findIssue coll x = Some b" by simp
qed

lemma not_Closed_iff: "s \<noteq> Closed \<longleftrightarrow> s = Open \<or> s = In_progress \<or> s = Blocked"
  by (cases s) simp_all

lemma openBlocker_iff:
  "openBlocker coll dep \<longleftrightarrow>
     (\<exists>b. findIssue coll (depends_on_id dep) = Some b \<and> status b \<noteq> Closed)"
  by (auto simp: openBlocker_def not_Closed_iff split: option.splits)

lemma in_getReadyIssues:
  "i \<in> set (getReadyIssues coll) \<longleftrightarrow>
     i \<in> set coll \<and> status i = Open \<and> (\<forall>d \<in> set (blockingDeps i). \<not> openBlocker coll d)"
  by (auto simp: getReadyIssues_def Let_def list_ex_iff)

lemma in_getBlockedIssues:
  "i \<in> set (getBlockedIssues coll) \<longleftrightarrow>
     i \<in> set coll \<and> status i \<noteq> Closed \<and> (\<exists>d \<in> set (blockingDeps i). openBlocker coll d)"
  by (auto simp: getBlockedIssues_def Let_def list_ex_iff)

lemma set_blockingDeps:
  "d \<in> set (blockingDeps i) \<longleftrightarrow>
     (\<exists>ds. dependencies i = Some ds \<and> d \<in> set ds \<and> type' d = Blocks)"
  by (cases "dependencies i") (auto simp: blockingDeps_def)

lemma findIssue_map:
  assumes "\<And>i. id' (f i) = id' i"
  shows "findIssue (map f coll) x = map_option f (findIssue coll x)"
  by (induction coll) (simp_all add: findIssue_def assms)

lemma onlyBlockingDeps_sel [simp]:
  "id' (onlyBlockingDeps i) = id' i"
  "status (onlyBlockingDeps i) = status i"
  "blockingDeps (onlyBlockingDeps i) = blockingDeps i"
  by (simp_all add: onlyBlockingDeps_def withDependencies_def blockingDeps_def split: option.splits)

lemma openBlocker_onlyBlockingDeps:
  "openBlocker (map onlyBlockingDeps coll) = openBlocker coll"
  by (rule ext) (simp add: openBlocker_def findIssue_map split: option.splits)

lemma getReadyIssues_onlyBlockingDeps:
  "getReadyIssues (map onlyBlockingDeps coll) = map onlyBlockingDeps (getReadyIssues coll)"
  by (simp add: getReadyIssues_def Let_def filter_map o_def openBlocker_onlyBlockingDeps)

lemma findIssue_None_image: "findIssue coll x = None \<longleftrightarrow> x \<notin> id' ` set coll"
  by (auto simp: findIssue_None)

lemma ball_blockingDeps:
  "(\<forall>d \<in> set (blockingDeps i). P d) \<longleftrightarrow>
     (\<forall>ds d. dependencies i = Some ds \<and> d \<in> set ds \<and> type' d = Blocks \<longrightarrow> P d)"
  unfolding Ball_def set_blockingDeps by blast

lemma bex_blockingDeps:
  "(\<exists>d \<in> set (blockingDeps i). P d) \<longleftrightarrow>
     (\<exists>ds d. dependencies i = Some ds \<and> d \<in> set ds \<and> type' d = Blocks \<and> P d)"
  unfolding Bex_def set_blockingDeps by blast

lemma ready_aux:
  "i \<in> set (getReadyIssues coll) \<longleftrightarrow>
     i \<in> set coll \<and> status i = Open \<and>
     (\<forall>d \<in> set (blockingDeps i).
        findIssue coll (depends_on_id d) = None \<or>
        (\<exists>b. findIssue coll (depends_on_id d) = Some b \<and> status b = Closed))"
  by (auto simp: in_getReadyIssues openBlocker_iff)

lemma ready_general:
  "i \<in> set (getReadyIssues coll) \<longleftrightarrow>
     i \<in> set coll \<and> status i = Open \<and>
     (\<forall>ds d. dependencies i = Some ds \<and> d \<in> set ds \<and> type' d = Blocks \<longrightarrow>
        find (\<lambda>b. id' b = depends_on_id d) coll = None \<or>
        (\<exists>b. find (\<lambda>b. id' b = depends_on_id d) coll = Some b \<and> status b = Closed))"
  using ready_aux [of i coll] unfolding ball_blockingDeps findIssue_def .

lemma ready_distinct:
  assumes "distinct (map id' coll)"
  shows "i \<in> set (getReadyIssues coll) \<longleftrightarrow>
     i \<in> set coll \<and> status i = Open \<and>
     (\<forall>ds d. dependencies i = Some ds \<and> d \<in> set ds \<and> type' d = Blocks \<longrightarrow>
        depends_on_id d \<notin> id' ` set coll \<or>
        (\<exists>b \<in> set coll. id' b = depends_on_id d \<and> status b = Closed))"
proof -
  have "i \<in> set (getReadyIssues coll) \<longleftrightarrow>
     i \<in> set coll \<and> status i = Open \<and>
     (\<forall>d \<in> set (blockingDeps i).
        depends_on_id d \<notin> id' ` set coll \<or>
        (\<exists>b \<in> set coll. id' b = depends_on_id d \<and> status b = Closed))"
    by (auto simp: ready_aux findIssue_distinct [OF assms] findIssue_None_image)
  then show ?thesis unfolding ball_blockingDeps .
qed

lemma ready_without_blocks:
  assumes "i \<in> set coll" "status i = Open"
    and "\<forall>ds d. dependencies i = Some ds \<and> d \<in> set ds \<longrightarrow> type' d \<noteq> Blocks"
  shows "i \<in> set (getReadyIssues coll)"
  unfolding ready_general using assms by blast

text \<open>
  Claim C3, as the code has it. An issue is in the result of \<open>getReadyIssues\<close> if and
  only if it is in the collection, its status is \<^verbatim>\<open>open\<close>, and each of its
  dependencies of type \<^verbatim>\<open>blocks\<close> either names no issue of the collection or names one
  whose status is \<^verbatim>\<open>closed\<close>. ``Names'' is the lookup of the source, the first issue
  with that id; when ids are unique it is the issue with that id. An open issue none
  of whose dependencies has type \<^verbatim>\<open>blocks\<close> is always in the result, and removing
  every dependency of another type from every issue changes nothing else in the
  result.
\<close>

theorem getReadyIssues_iff:
  "(i \<in> set (getReadyIssues coll) \<longleftrightarrow>
      i \<in> set coll \<and> status i = Open \<and>
      (\<forall>ds d. dependencies i = Some ds \<and> d \<in> set ds \<and> type' d = Blocks \<longrightarrow>
         find (\<lambda>b. id' b = depends_on_id d) coll = None \<or>
         (\<exists>b. find (\<lambda>b. id' b = depends_on_id d) coll = Some b \<and> status b = Closed))) \<and>
   (distinct (map id' coll) \<longrightarrow>
      (i \<in> set (getReadyIssues coll) \<longleftrightarrow>
         i \<in> set coll \<and> status i = Open \<and>
         (\<forall>ds d. dependencies i = Some ds \<and> d \<in> set ds \<and> type' d = Blocks \<longrightarrow>
            depends_on_id d \<notin> id' ` set coll \<or>
            (\<exists>b \<in> set coll. id' b = depends_on_id d \<and> status b = Closed)))) \<and>
   (i \<in> set coll \<and> status i = Open \<and>
      (\<forall>ds d. dependencies i = Some ds \<and> d \<in> set ds \<longrightarrow> type' d \<noteq> Blocks)
      \<longrightarrow> i \<in> set (getReadyIssues coll)) \<and>
   getReadyIssues (map onlyBlockingDeps coll) = map onlyBlockingDeps (getReadyIssues coll)"
proof -
  note c1 = ready_general [of i coll]
  have c2: "distinct (map id' coll) \<longrightarrow>
      (i \<in> set (getReadyIssues coll) \<longleftrightarrow>
         i \<in> set coll \<and> status i = Open \<and>
         (\<forall>ds d. dependencies i = Some ds \<and> d \<in> set ds \<and> type' d = Blocks \<longrightarrow>
            depends_on_id d \<notin> id' ` set coll \<or>
            (\<exists>b \<in> set coll. id' b = depends_on_id d \<and> status b = Closed)))"
    using ready_distinct [of coll i] by (rule impI)
  have c3: "i \<in> set coll \<and> status i = Open \<and>
      (\<forall>ds d. dependencies i = Some ds \<and> d \<in> set ds \<longrightarrow> type' d \<noteq> Blocks)
      \<longrightarrow> i \<in> set (getReadyIssues coll)"
    using ready_without_blocks [of i coll] by blast
  note c4 = getReadyIssues_onlyBlockingDeps [of coll]
  from c1 c2 c3 c4 show ?thesis by (intro conjI)
qed

theorem getReadyIssues_iff_witness:
  "distinct (map id' exABR) \<and> exB \<in> set (getReadyIssues exABR) \<and>
   exR \<in> set (getReadyIssues exABR) \<and> exA \<notin> set (getReadyIssues exABR) \<and>
   dependencies exR = Some [mkDep ''R'' ''B'' Related] \<and> status exB = Open"
  using getReadyIssues_iff [of exB exABR] getReadyIssues_iff [of exA exABR]
    getReadyIssues_iff [of exR exABR]
  by (simp add: exABR_def exA_def exB_def exR_def)

text \<open>
  The claim as the specification words it fails on a dangling edge: \<open>exGhost\<close> is open
  and its only \<^verbatim>\<open>blocks\<close> edge names an id that no issue has, so no closed issue is
  behind it, and yet it is ready.
\<close>

theorem getReadyIssues_dangling_counterexample:
  "exGhost \<in> set (getReadyIssues [exGhost]) \<and> \<not> readySpec [exGhost] exGhost"
  by (simp add: exGhost_def getReadyIssues_def readySpec_def blockingDeps_def openBlocker_def
      findIssue_def)

lemma blocked_aux:
  "i \<in> set (getBlockedIssues coll) \<longleftrightarrow>
     i \<in> set coll \<and> status i \<noteq> Closed \<and>
     (\<exists>d \<in> set (blockingDeps i). \<exists>b. findIssue coll (depends_on_id d) = Some b \<and>
        status b \<in> {Open, In_progress, Blocked})"
  by (auto simp: in_getBlockedIssues openBlocker_iff not_Closed_iff)

lemma blocked_general:
  "i \<in> set (getBlockedIssues coll) \<longleftrightarrow>
     i \<in> set coll \<and> status i \<noteq> Closed \<and>
     (\<exists>ds d. dependencies i = Some ds \<and> d \<in> set ds \<and> type' d = Blocks \<and>
        (\<exists>b. find (\<lambda>b. id' b = depends_on_id d) coll = Some b \<and>
           status b \<in> {Open, In_progress, Blocked}))"
  using blocked_aux [of i coll] unfolding bex_blockingDeps findIssue_def .

lemma blocked_distinct:
  assumes "distinct (map id' coll)"
  shows "i \<in> set (getBlockedIssues coll) \<longleftrightarrow>
     i \<in> set coll \<and> status i \<noteq> Closed \<and>
     (\<exists>ds d. dependencies i = Some ds \<and> d \<in> set ds \<and> type' d = Blocks \<and>
        (\<exists>b \<in> set coll. id' b = depends_on_id d \<and>
           status b \<in> {Open, In_progress, Blocked}))"
proof -
  have "i \<in> set (getBlockedIssues coll) \<longleftrightarrow>
     i \<in> set coll \<and> status i \<noteq> Closed \<and>
     (\<exists>d \<in> set (blockingDeps i). \<exists>b \<in> set coll. id' b = depends_on_id d \<and>
        status b \<in> {Open, In_progress, Blocked})"
    by (auto simp: blocked_aux findIssue_distinct [OF assms])
  then show ?thesis unfolding bex_blockingDeps .
qed

text \<open>
  Claim C4. An issue is in the result of \<open>getBlockedIssues\<close> if and only if it is in the
  collection, its status is not \<^verbatim>\<open>closed\<close>, and one of its dependencies of type
  \<^verbatim>\<open>blocks\<close> names an issue of the collection whose status is \<^verbatim>\<open>open\<close>,
  \<^verbatim>\<open>in_progress\<close> or \<^verbatim>\<open>blocked\<close> (the first issue with that id; the issue with that
  id when ids are unique). An issue whose own status is \<^verbatim>\<open>open\<close> is included when it
  has such an edge, and an issue without such an edge is not included.
\<close>

theorem getBlockedIssues_iff:
  "(i \<in> set (getBlockedIssues coll) \<longleftrightarrow>
      i \<in> set coll \<and> status i \<noteq> Closed \<and>
      (\<exists>ds d. dependencies i = Some ds \<and> d \<in> set ds \<and> type' d = Blocks \<and>
         (\<exists>b. find (\<lambda>b. id' b = depends_on_id d) coll = Some b \<and>
            status b \<in> {Open, In_progress, Blocked}))) \<and>
   (distinct (map id' coll) \<longrightarrow>
      (i \<in> set (getBlockedIssues coll) \<longleftrightarrow>
         i \<in> set coll \<and> status i \<noteq> Closed \<and>
         (\<exists>ds d. dependencies i = Some ds \<and> d \<in> set ds \<and> type' d = Blocks \<and>
            (\<exists>b \<in> set coll. id' b = depends_on_id d \<and>
               status b \<in> {Open, In_progress, Blocked})))) \<and>
   (i \<in> set coll \<and> status i = Open \<and>
      (\<exists>ds d. dependencies i = Some ds \<and> d \<in> set ds \<and> type' d = Blocks \<and>
         (\<exists>b. find (\<lambda>b. id' b = depends_on_id d) coll = Some b \<and>
            status b \<in> {Open, In_progress, Blocked}))
      \<longrightarrow> i \<in> set (getBlockedIssues coll)) \<and>
   ((\<forall>ds d b. dependencies i = Some ds \<and> d \<in> set ds \<and> type' d = Blocks \<and>
        find (\<lambda>b. id' b = depends_on_id d) coll = Some b \<longrightarrow> status b = Closed)
      \<longrightarrow> i \<notin> set (getBlockedIssues coll))"
proof -
  note c1 = blocked_general [of i coll]
  have c2: "distinct (map id' coll) \<longrightarrow>
      (i \<in> set (getBlockedIssues coll) \<longleftrightarrow>
         i \<in> set coll \<and> status i \<noteq> Closed \<and>
         (\<exists>ds d. dependencies i = Some ds \<and> d \<in> set ds \<and> type' d = Blocks \<and>
            (\<exists>b \<in> set coll. id' b = depends_on_id d \<and>
               status b \<in> {Open, In_progress, Blocked})))"
    using blocked_distinct [of coll i] by (rule impI)
  have c3: "i \<in> set coll \<and> status i = Open \<and>
      (\<exists>ds d. dependencies i = Some ds \<and> d \<in> set ds \<and> type' d = Blocks \<and>
         (\<exists>b. find (\<lambda>b. id' b = depends_on_id d) coll = Some b \<and>
            status b \<in> {Open, In_progress, Blocked}))
      \<longrightarrow> i \<in> set (getBlockedIssues coll)"
    unfolding c1 by simp
  have c4: "(\<forall>ds d b. dependencies i = Some ds \<and> d \<in> set ds \<and> type' d = Blocks \<and>
        find (\<lambda>b. id' b = depends_on_id d) coll = Some b \<longrightarrow> status b = Closed)
      \<longrightarrow> i \<notin> set (getBlockedIssues coll)"
    unfolding c1 by force
  from c1 c2 c3 c4 show ?thesis by (intro conjI)
qed

theorem getBlockedIssues_iff_witness:
  "distinct (map id' exABR) \<and> status exA = Open \<and> exA \<in> set (getBlockedIssues exABR) \<and>
   exB \<notin> set (getBlockedIssues exABR) \<and> exR \<notin> set (getBlockedIssues exABR) \<and>
   dependencies exR = Some [mkDep ''R'' ''B'' Related] \<and> status exB = Open"
  using getBlockedIssues_iff [of exA exABR] getBlockedIssues_iff [of exB exABR]
    getBlockedIssues_iff [of exR exABR]
  by (simp add: exABR_def exA_def exB_def exR_def)

lemma dangling_not_openBlocker:
  "depends_on_id d \<notin> id' ` set coll \<Longrightarrow> \<not> openBlocker coll d"
proof
  assume no: "depends_on_id d \<notin> id' ` set coll" and "openBlocker coll d"
  then obtain b where "findIssue coll (depends_on_id d) = Some b"
    by (auto simp: openBlocker_iff)
  then have "b \<in> set coll" "id' b = depends_on_id d"
    by (simp_all add: findIssue_SomeD)
  then have "depends_on_id d \<in> id' ` set coll"
    by (rule_tac x = b in image_eqI) simp_all
  with no show False by simp
qed

text \<open>
  Claim C10. A dependency of type \<^verbatim>\<open>blocks\<close> whose target is the id of no issue in the
  collection never blocks: an open issue all of whose \<^verbatim>\<open>blocks\<close> dependencies dangle
  is ready, and an issue all of whose \<^verbatim>\<open>blocks\<close> dependencies dangle is not blocked,
  whatever its dependencies of other types are.
\<close>

theorem dangling_edge_never_blocks:
  "(i \<in> set coll \<and> status i = Open \<and>
      (\<forall>ds d. dependencies i = Some ds \<and> d \<in> set ds \<and> type' d = Blocks \<longrightarrow>
         depends_on_id d \<notin> id' ` set coll)
      \<longrightarrow> i \<in> set (getReadyIssues coll)) \<and>
   ((\<forall>ds d. dependencies i = Some ds \<and> d \<in> set ds \<and> type' d = Blocks \<longrightarrow>
         depends_on_id d \<notin> id' ` set coll)
      \<longrightarrow> i \<notin> set (getBlockedIssues coll))"
proof -
  have "\<forall>d \<in> set (blockingDeps i). \<not> openBlocker coll d"
    if "\<forall>ds d. dependencies i = Some ds \<and> d \<in> set ds \<and> type' d = Blocks \<longrightarrow>
          depends_on_id d \<notin> id' ` set coll"
    unfolding ball_blockingDeps using that dangling_not_openBlocker by blast
  then show ?thesis
    unfolding in_getReadyIssues in_getBlockedIssues by blast
qed

theorem dangling_edge_never_blocks_witness:
  "dependencies exG = Some [mkDep ''G'' ''ghost'' Blocks, mkDep ''G'' ''B'' Related] \<and>
   ''ghost'' \<notin> id' ` set [exG, exB] \<and> status exB = Open \<and>
   exG \<in> set (getReadyIssues [exG, exB]) \<and> exG \<notin> set (getBlockedIssues [exG, exB])"
proof -
  have h: "\<forall>ds d. dependencies exG = Some ds \<and> d \<in> set ds \<and> type' d = Blocks \<longrightarrow>
             depends_on_id d \<notin> id' ` set [exG, exB]"
    by (auto simp: exG_def exB_def)
  have m: "exG \<in> set [exG, exB]" "status exG = Open"
    by (simp_all add: exG_def)
  from dangling_edge_never_blocks [of exG "[exG, exB]"] h m
  have r: "exG \<in> set (getReadyIssues [exG, exB]) \<and> exG \<notin> set (getBlockedIssues [exG, exB])"
    by blast
  have d: "dependencies exG = Some [mkDep ''G'' ''ghost'' Blocks, mkDep ''G'' ''B'' Related]"
    "''ghost'' \<notin> id' ` set [exG, exB]" "status exB = Open"
    by (simp_all add: exG_def exB_def)
  from r d show ?thesis by blast
qed

section \<open>Facts about the allocator\<close>

lemma shift53_small: "n < 2 ^ 53 \<Longrightarrow> shift53 n = 0"
  by (simp add: shift53.simps)

lemma round53_small: "n < 2 ^ 53 \<Longrightarrow> round53 n = n"
  by (simp add: round53_def shift53_small)

lemma shift53_2p53: "shift53 9007199254740992 = 1"
  by (simp add: shift53.simps [of 9007199254740992] shift53_small)

lemma round53_2p53: "round53 9007199254740992 = 9007199254740992"
  by (simp add: round53_def shift53_2p53)

lemma round53_le: "n \<le> 2 ^ 53 \<Longrightarrow> round53 n = n"
  using round53_small [of n] round53_2p53 by (cases "n = 9007199254740992") auto

lemma decimalValue_Nil: "decimalValue [] = 0"
  by (simp add: decimalValue_def)

lemma numericId_small:
  "decimalValue (trailingDigits x) < 2 ^ 53 \<Longrightarrow> numericId x = decimalValue (trailingDigits x)"
  by (cases "trailingDigits x") (simp_all add: numericId_def parseInt10_def round53_small decimalValue_Nil)

lemma mathMax_Max:
  assumes "xs \<noteq> []"
  shows "mathMax xs = Max (set xs)"
proof (cases xs)
  case Nil
  with assms show ?thesis by simp
next
  case (Cons x ys)
  show ?thesis unfolding Cons mathMax.simps by (rule Max.set_eq_fold [symmetric])
qed

lemma maxSuffix_alt:
  "maxSuffix coll = Max (insert 0 ((\<lambda>i. decimalValue (trailingDigits (id' i))) ` set coll))"
proof -
  have "insert 0 (set (map decimalValue
          (filter (\<lambda>ds. ds \<noteq> []) (map (\<lambda>issue. trailingDigits (id' issue)) coll)))) =
        insert 0 ((\<lambda>i. decimalValue (trailingDigits (id' i))) ` set coll)"
    by (auto simp: decimalValue_Nil image_iff)
  then show ?thesis by (simp add: maxSuffix_def)
qed

lemma maxSuffix_bound:
  assumes "\<forall>i \<in> set coll. decimalValue (trailingDigits (id' i)) < 2 ^ 53"
  shows "maxSuffix coll < 2 ^ 53"
  unfolding maxSuffix_alt using assms by (subst Max_less_iff) auto

lemma generateNextIssueId_general:
  assumes "\<forall>i \<in> set coll. decimalValue (trailingDigits (id' i)) < 2 ^ 53"
  shows "generateNextIssueId coll = Some (''BD-'' @ decimal (maxSuffix coll + 1))"
proof -
  have ids: "map (\<lambda>issue. numericId (id' issue)) coll =
             map (\<lambda>i. decimalValue (trailingDigits (id' i))) coll"
    using assms by (simp add: numericId_small)
  have maxId: "(if length coll > 0 then mathMax (map (\<lambda>issue. numericId (id' issue)) coll) else 0)
               = maxSuffix coll"
  proof (cases "coll = []")
    case True
    then show ?thesis by (simp add: maxSuffix_alt)
  next
    case False
    then have "mathMax (map (\<lambda>i. decimalValue (trailingDigits (id' i))) coll) =
               Max ((\<lambda>i. decimalValue (trailingDigits (id' i))) ` set coll)"
      by (simp add: mathMax_Max)
    also have "\<dots> = maxSuffix coll"
      unfolding maxSuffix_alt using False by (subst Max_insert) (auto simp: max_def)
    finally show ?thesis using False by (simp add: ids)
  qed
  have "maxSuffix coll + 1 \<le> 2 ^ 53"
    using maxSuffix_bound [OF assms] by simp
  then have "numberToString (round53 (maxSuffix coll + 1)) = Some (decimal (maxSuffix coll + 1))"
    by (simp add: round53_le numberToString_def)
  then show ?thesis
    using maxId by (simp add: generateNextIssueId_def Let_def)
qed


lemma trailingDigits_suffix:
  "\<exists>p. s = p @ trailingDigits s \<and> list_all isDigit (trailingDigits s) \<and>
       (p = [] \<or> \<not> isDigit (last p))"
proof -
  let ?p = "rev (dropWhile isDigit (rev s))"
  have "rev (takeWhile isDigit (rev s) @ dropWhile isDigit (rev s)) = s"
    by (simp only: takeWhile_dropWhile_id rev_rev_ident)
  then have a: "s = ?p @ trailingDigits s"
    by (simp only: rev_append trailingDigits_def)
  have b: "list_all isDigit (trailingDigits s)"
    by (auto simp: trailingDigits_def list_all_iff dest: set_takeWhileD)
  have c: "?p = [] \<or> \<not> isDigit (last ?p)"
    by (cases "dropWhile isDigit (rev s) = []") (simp_all add: last_rev hd_dropWhile)
  from a b c show ?thesis by blast
qed

lemmas eval_id = numericId_def trailingDigits_def isDigit_def parseInt10_def decimalValue_def
  digitValue_def round53_small withId_def

lemma allocator_empty: "generateNextIssueId [] = Some ''BD-1''"
  by (simp add: generateNextIssueId_def numberToString_def round53_small decimal.simps)

lemma allocator_sequential:
  "generateNextIssueId (map withId [''BD-1'', ''BD-2'', ''BD-3'']) = Some ''BD-4''"
  by (simp add: generateNextIssueId_def numberToString_def eval_id decimal.simps)

lemma allocator_mixed:
  "generateNextIssueId (map withId [''test-1'', ''test-2'', ''BD-10'', ''test-5'']) = Some ''BD-11''"
  by (simp add: generateNextIssueId_def numberToString_def eval_id decimal.simps)

lemma allocator_timestamps:
  "generateNextIssueId (map withId [''BD-1760553600806'', ''BD-1760553775496'', ''BD-5''])
     = Some ''BD-1760553775497''"
  by (simp add: generateNextIssueId_def numberToString_def eval_id decimal.simps)

lemma numericId_big: "numericId ''BD-9007199254740992'' = 9007199254740992"
  using round53_2p53
  by (simp add: numericId_def trailingDigits_def isDigit_def parseInt10_def decimalValue_def
      digitValue_def)

lemma round53_above: "round53 9007199254740993 = 9007199254740992"
  by (simp add: round53_def shift53.simps [of 9007199254740993] shift53_small)

text \<open>
  Claim C5, as the code has it. When the numeric value of every trailing digit run is
  below \<open>2 ^ 53\<close>, the allocator returns \<^verbatim>\<open>BD-\<close> followed by the decimal numeral of
  the maximum plus one, where the maximum ranges over the trailing digit runs of all
  ids, ids without one giving no candidate, and is \<open>0\<close> when there is no candidate.
  The four collections of the claim give \<^verbatim>\<open>BD-1\<close>, \<^verbatim>\<open>BD-4\<close>, \<^verbatim>\<open>BD-11\<close> and
  \<^verbatim>\<open>BD-1760553775497\<close>.
\<close>

theorem generateNextIssueId_max_plus_one:
  "((\<forall>i \<in> set coll. decimalValue (trailingDigits (id' i)) < 2 ^ 53) \<longrightarrow>
      generateNextIssueId coll = Some (''BD-'' @ decimal (maxSuffix coll + 1))) \<and>
   generateNextIssueId [] = Some ''BD-1'' \<and>
   generateNextIssueId (map withId [''BD-1'', ''BD-2'', ''BD-3'']) = Some ''BD-4'' \<and>
   generateNextIssueId (map withId [''test-1'', ''test-2'', ''BD-10'', ''test-5''])
     = Some ''BD-11'' \<and>
   generateNextIssueId (map withId [''BD-1760553600806'', ''BD-1760553775496'', ''BD-5''])
     = Some ''BD-1760553775497''"
  using generateNextIssueId_general [of coll] allocator_empty allocator_sequential
    allocator_mixed allocator_timestamps
  by blast

theorem generateNextIssueId_max_plus_one_witness:
  "maxSuffix (map withId [''test-1'', ''test-2'', ''BD-10'', ''test-5'']) = 10 \<and>
   generateNextIssueId (map withId [''test-1'', ''test-2'', ''BD-10'', ''test-5'']) =
     Some (''BD-'' @ decimal (maxSuffix (map withId [''test-1'', ''test-2'', ''BD-10'', ''test-5'']) + 1))"
proof -
  have h: "\<forall>i \<in> set (map withId [''test-1'', ''test-2'', ''BD-10'', ''test-5'']).
             decimalValue (trailingDigits (id' i)) < 2 ^ 53"
    by (simp add: withId_def trailingDigits_def isDigit_def decimalValue_def digitValue_def)
  have m: "maxSuffix (map withId [''test-1'', ''test-2'', ''BD-10'', ''test-5'']) = 10"
    by (simp add: maxSuffix_def withId_def trailingDigits_def isDigit_def decimalValue_def
        digitValue_def)
  from h generateNextIssueId_max_plus_one
    [of "map withId [''test-1'', ''test-2'', ''BD-10'', ''test-5'']"]
  have "generateNextIssueId (map withId [''test-1'', ''test-2'', ''BD-10'', ''test-5'']) =
     Some (''BD-'' @ decimal (maxSuffix (map withId [''test-1'', ''test-2'', ''BD-10'', ''test-5'']) + 1))"
    by blast
  with m show ?thesis by blast
qed

text \<open>
  Without the bound the claim fails. The id \<^verbatim>\<open>BD-9007199254740992\<close> ends in
  \<open>2 ^ 53\<close>; the sum \<^verbatim>\<open>maxId + 1\<close> is \<open>2 ^ 53 + 1\<close>, which no double represents and
  which rounds back to \<open>2 ^ 53\<close>, so the allocator returns the id that is already in
  the collection instead of \<^verbatim>\<open>BD-9007199254740993\<close>.
\<close>

theorem generateNextIssueId_precision_counterexample:
  "generateNextIssueId exBig = Some ''BD-9007199254740992'' \<and>
   maxSuffix exBig + 1 = 9007199254740993 \<and>
   generateNextIssueId exBig \<noteq> Some (''BD-'' @ decimal (maxSuffix exBig + 1))"
  by (simp add: exBig_def generateNextIssueId_def numberToString_def numericId_big
      round53_above decimal.simps withId_def maxSuffix_def trailingDigits_def isDigit_def
      decimalValue_def digitValue_def)

section \<open>Facts about the store and the side panel\<close>

lemma id_in_image: "x \<in> set xs \<Longrightarrow> id' x = y \<Longrightarrow> y \<in> id' ` set xs"
  by auto

text \<open>
  When the Backend answers with a status that is not a success, both mutations put
  the snapshot back (the branch commented \<^verbatim>\<open>Revert on failure\<close>).
\<close>

lemma updateIssue_not_ok_restores:
  "issues (snd (updateIssue now x updates (Response False body) st)) = issues st"
  by (simp add: updateIssue_def updateIssue_settle_def Let_def)

lemma deleteIssue_not_ok_restores:
  "issues (snd (deleteIssue x (Response False body) st)) = issues st"
  by (simp add: deleteIssue_def deleteIssue_settle_def Let_def)

text \<open>
  Claim C1 at a failing input. The store holds the open issue \<open>X\<close> and the request
  does not reach the Backend: \<^verbatim>\<open>fetch\<close> rejects, control goes to the \<^verbatim>\<open>catch\<close>
  block, and that block records the error without putting the snapshot back. The
  collection keeps the optimistic change, for \<^verbatim>\<open>deleteIssue\<close> and for \<^verbatim>\<open>updateIssue\<close>;
  the same happens when the body of a successful response does not parse.
\<close>

theorem fetch_rejected_keeps_optimistic_change:
  "issues exStoreX = [mkIssue ''X'' Open None] \<and>
   issues (snd (deleteIssue ''X'' (FetchRejected ''Failed to fetch'') exStoreX)) =
     [mkIssue ''X'' Closed None] \<and>
   issues (snd (deleteIssue ''X'' (FetchRejected ''Failed to fetch'') exStoreX)) \<noteq> issues exStoreX \<and>
   issues (snd (updateIssue ''2025-06-01T00:00:00Z'' ''X'' (noUpdates\<lparr>p_status := Some Closed\<rparr>)
      (FetchRejected ''Failed to fetch'') exStoreX)) \<noteq> issues exStoreX \<and>
   issues (snd (deleteIssue ''X'' (Response True (Malformed ''Unexpected token'')) exStoreX))
     \<noteq> issues exStoreX"
  by (simp add: exStoreX_def exOld_def emptyStore_def deleteIssue_def deleteIssue_settle_def
      deleteIssue_optimistic_def updateIssue_def updateIssue_settle_def
      updateIssue_optimistic_def spreadUpdates_def withStatusClosed_def noUpdates_def
      orElse_def mkIssue_def Let_def)

text \<open>
  Claim C9, as the code has it. If no record has the pushed id, the pushed record is
  put in front of the collection. If a record has it, the message is ignored and the
  store is unchanged: the existing record stays, the pushed one is dropped. Either
  way a collection that held at most one record with that id holds exactly one
  afterwards.
\<close>

theorem issue_created_handler:
  "(id' d \<notin> id' ` set (issues st) \<longrightarrow> issues (onmessage (IssueCreated d) st) = d # issues st) \<and>
   (id' d \<in> id' ` set (issues st) \<longrightarrow> onmessage (IssueCreated d) st = st) \<and>
   (length (filter (\<lambda>i. id' i = id' d) (issues st)) \<le> 1 \<longrightarrow>
      length (filter (\<lambda>i. id' i = id' d) (issues (onmessage (IssueCreated d) st))) = 1)"
proof -
  have ex: "list_ex (\<lambda>issue. id' issue = id' d) (issues st) \<longleftrightarrow> id' d \<in> id' ` set (issues st)"
    unfolding list_ex_iff image_iff by metis
  have "filter (\<lambda>i. id' i = id' d) (issues st) \<noteq> []" if "id' d \<in> id' ` set (issues st)"
    using that by (auto simp: filter_empty_conv)
  then have pos: "length (filter (\<lambda>i. id' i = id' d) (issues st)) \<ge> 1"
    if "id' d \<in> id' ` set (issues st)"
    using that by (simp add: Suc_le_eq)
  have zero: "filter (\<lambda>i. id' i = id' d) (issues st) = []" if "id' d \<notin> id' ` set (issues st)"
    using that by (auto simp: filter_empty_conv dest: id_in_image)
  show ?thesis
    using pos zero by (cases "id' d \<in> id' ` set (issues st)") (auto simp: ex Let_def)
qed

theorem issue_created_handler_witness:
  "issues (onmessage (IssueCreated exPushed) emptyStore) = [exPushed] \<and>
   onmessage (IssueCreated exPushed) exStoreX = exStoreX \<and>
   length (filter (\<lambda>i. id' i = id' exPushed) (issues (onmessage (IssueCreated exPushed) exStoreX))) = 1"
  using issue_created_handler [of exPushed emptyStore] issue_created_handler [of exPushed exStoreX]
  by (simp add: exStoreX_def exOld_def exPushed_def emptyStore_def)

text \<open>
  The claim says that a record already present is overwritten by the pushed record.
  Here the store holds \<open>X\<close> with status \<^verbatim>\<open>open\<close>, the message carries \<open>X\<close> with
  status \<^verbatim>\<open>closed\<close>, and the store still holds the open record afterwards.
\<close>

theorem issue_created_keeps_old_record_counterexample:
  "id' exPushed = id' exOld \<and> exPushed \<noteq> exOld \<and> issues exStoreX = [exOld] \<and>
   issues (onmessage (IssueCreated exPushed) exStoreX) = [exOld]"
  by (simp add: exStoreX_def exOld_def exPushed_def emptyStore_def mkIssue_def)

lemmas panel_eval = handleAddDependency_def exPanel_def exAdded_def exDraft_def exCycleColl_def panelIssue_def
  findIssue_def existingDeps_def asPartial_def trim_def isSpace_def Let_def

lemmas saved_eval = exSaved_def exDraft_def updateIssue_optimistic_def spreadUpdates_def orElse_def
  emptyStore_def exCycleColl_def asPartial_def getReadyIssues_def openBlocker_def
  findIssue_def blockingDeps_def mkIssue_def mkDep_def

text \<open>
  Claim C2 at a failing input. \<open>B\<close> has a \<^verbatim>\<open>blocks\<close> edge to \<open>A\<close>, so \<open>A\<close> is
  reachable from \<open>B\<close>. Adding the \<^verbatim>\<open>blocks\<close> edge from \<open>A\<close> to \<open>B\<close> in the panel of
  \<open>A\<close> is accepted without an error, exactly as the \<^verbatim>\<open>related\<close> edge is; saving the
  draft puts the edge into the store, where \<open>A\<close> and \<open>B\<close> now wait for each other and
  no issue is ready.
\<close>

theorem cycle_closing_blocks_edge_accepted:
  "blockingDeps (exCycleColl ! 1) = [mkDep ''B'' ''A'' Blocks] \<and>
   handleAddDependency ''2025-06-01T00:00:00Z'' exCycleColl (Some ''A'') (exPanel ''B'' Blocks)
     = exAdded ''B'' Blocks \<and>
   handleAddDependency ''2025-06-01T00:00:00Z'' exCycleColl (Some ''A'') (exPanel ''B'' Related)
     = exAdded ''B'' Related \<and>
   map blockingDeps (issues (exSaved ''B'' Blocks)) =
     [[Dependency ''A'' ''B'' Blocks ''2025-06-01T00:00:00Z'' ''system''],
      [mkDep ''B'' ''A'' Blocks]] \<and>
   getReadyIssues (issues (exSaved ''B'' Blocks)) = []"
  by (simp add: panel_eval blockingDeps_def saved_eval)

text \<open>
  Claim C7 at a failing input. In the panel of \<open>A\<close> the target \<open>A\<close> passes both
  checks (no edge to \<open>A\<close> yet, and \<open>A\<close> exists), so the edge from \<open>A\<close> to itself is
  appended without an error; saving the draft puts it into the store, where \<open>A\<close>
  then waits for itself.
\<close>

theorem self_dependency_accepted:
  "handleAddDependency ''2025-06-01T00:00:00Z'' exCycleColl (Some ''A'') (exPanel ''A'' Blocks)
     = exAdded ''A'' Blocks \<and>
   dependencies (issues (exSaved ''A'' Blocks) ! 0) =
     Some [Dependency ''A'' ''A'' Blocks ''2025-06-01T00:00:00Z'' ''system''] \<and>
   id' (issues (exSaved ''A'' Blocks) ! 0) = ''A''"
  by (simp add: panel_eval saved_eval)

text \<open>
  Claim C6 says that an error is reported whenever a check fails. A target that is
  blank after trimming is the id of no issue, and the function returns at its first
  line: nothing is appended and no error is set.
\<close>

theorem blank_target_no_error_counterexample:
  "trim ''  '' = [] \<and> findIssue exCycleColl (trim ''  '') = None \<and>
   error' (handleAddDependency ''2025-06-01T00:00:00Z'' exCycleColl (Some ''A'') (exPanel ''  '' Blocks))
     = None \<and>
   handleAddDependency ''2025-06-01T00:00:00Z'' exCycleColl (Some ''A'') (exPanel ''  '' Blocks)
     = exPanel ''  '' Blocks"
  by (simp add: panel_eval)

text \<open>
  Claim C6, as the code has it. The side panel is open on an existing issue with a
  draft; \<open>deps\<close> is the dependency list of the draft (empty when the draft has none)
  and \<open>t\<close> the trimmed target. The click never changes the store. A blank \<open>t\<close> is
  ignored: the panel is as before, with no error set. Otherwise the edge from the
  issue to \<open>t\<close>, of the selected type, is appended to \<open>deps\<close> exactly when no edge
  of \<open>deps\<close> has the target \<open>t\<close>, whatever its type, and \<open>t\<close> is the id of an issue
  of the store's collection; the error is cleared then. When an edge to \<open>t\<close> exists,
  or else when \<open>t\<close> is unknown, only the error changes: it is set, and the draft with
  its dependency list is as before. The check compares targets only; when every edge
  of \<open>deps\<close> has the issue as its source this is the comparison of the pairs
  (\<^verbatim>\<open>issue_id\<close>, \<^verbatim>\<open>depends_on_id\<close>).
\<close>

theorem handleAddDependency_checks:
  assumes e: "editedIssue (app_panel app) = Some edited"
    and i: "panelIssue (issues (app_store app)) issueId = Some issue"
    and ds: "deps = (case p_dependencies edited of Some (Some l) \<Rightarrow> l | _ \<Rightarrow> [])"
    and t: "t = trim (newDependencyId (app_panel app))"
    and r: "result = onAddDependency now issueId app"
  shows
   "app_store result = app_store app \<and>
    (t = [] \<longrightarrow> app_panel result = app_panel app) \<and>
    (t \<noteq> [] \<and> t \<notin> depends_on_id ` set deps \<and> t \<in> id' ` set (issues (app_store app)) \<longrightarrow>
       app_panel result =
         (app_panel app)
           \<lparr>editedIssue :=
              Some (edited\<lparr>p_dependencies :=
                Some (Some (deps @
                  [Dependency (id' issue) t (newDependencyType (app_panel app)) now
                     ''system'']))\<rparr>),
            newDependencyId := [], error' := None\<rparr>) \<and>
    (t \<noteq> [] \<and> t \<in> depends_on_id ` set deps \<longrightarrow>
       app_panel result = (app_panel app)\<lparr>error' := Some ''Dependency already exists''\<rparr>) \<and>
    (t \<noteq> [] \<and> t \<notin> depends_on_id ` set deps \<and> t \<notin> id' ` set (issues (app_store app)) \<longrightarrow>
       app_panel result =
         (app_panel app)\<lparr>error' := Some (''Issue '' @ t @ '' not found'')\<rparr>) \<and>
    ((\<forall>d \<in> set deps. issue_id d = id' issue) \<longrightarrow>
       (t \<in> depends_on_id ` set deps \<longleftrightarrow>
        (id' issue, t) \<in> (\<lambda>d. (issue_id d, depends_on_id d)) ` set deps))"
proof -
  let ?coll = "issues (app_store app)"
  let ?panel = "app_panel app"
  have deps: "existingDeps edited = deps"
    by (simp add: existingDeps_def ds)
  have dup: "list_ex (\<lambda>d. depends_on_id d = t) deps \<longleftrightarrow> t \<in> depends_on_id ` set deps"
    unfolding list_ex_iff image_iff by metis
  have known: "findIssue ?coll t = None \<longleftrightarrow> t \<notin> id' ` set ?coll"
    by (rule findIssue_None_image)
  have unf: "app_panel result =
          (if t = [] then ?panel
          else if list_ex (\<lambda>d. depends_on_id d = t) deps
          then ?panel\<lparr>error' := Some ''Dependency already exists''\<rparr>
          else (case findIssue ?coll t of
                  None \<Rightarrow> ?panel\<lparr>error' := Some (''Issue '' @ t @ '' not found'')\<rparr>
                | Some targetIssue \<Rightarrow>
                    ?panel\<lparr>editedIssue :=
                               Some (edited\<lparr>p_dependencies :=
                                 Some (Some (deps @
                                   [Dependency (id' issue) t (newDependencyType ?panel) now
                                      ''system'']))\<rparr>),
                             newDependencyId := [],
                             error' := None\<rparr>))"
    unfolding r onAddDependency_def handleAddDependency_def e i t [symmetric]
    by (simp add: Let_def deps split: option.split)
  have c0: "app_store result = app_store app"
    by (simp add: r onAddDependency_def)
  have c1: "t = [] \<longrightarrow> app_panel result = ?panel"
    by (simp add: unf)
  have c2: "t \<noteq> [] \<and> t \<notin> depends_on_id ` set deps \<and> t \<in> id' ` set ?coll \<longrightarrow>
       app_panel result =
         ?panel
           \<lparr>editedIssue :=
              Some (edited\<lparr>p_dependencies :=
                Some (Some (deps @
                  [Dependency (id' issue) t (newDependencyType ?panel) now ''system'']))\<rparr>),
            newDependencyId := [], error' := None\<rparr>"
  proof (cases "findIssue ?coll t")
    case None
    then show ?thesis by (simp add: known)
  next
    case (Some a)
    then show ?thesis by (simp add: unf dup)
  qed
  have c3: "t \<noteq> [] \<and> t \<in> depends_on_id ` set deps \<longrightarrow>
       app_panel result = ?panel\<lparr>error' := Some ''Dependency already exists''\<rparr>"
    by (simp add: unf dup)
  have c4: "t \<noteq> [] \<and> t \<notin> depends_on_id ` set deps \<and> t \<notin> id' ` set ?coll \<longrightarrow>
       app_panel result = ?panel\<lparr>error' := Some (''Issue '' @ t @ '' not found'')\<rparr>"
  proof (cases "findIssue ?coll t")
    case None
    then show ?thesis by (simp add: unf dup)
  next
    case (Some a)
    then have "t \<in> id' ` set ?coll" using known by simp
    then show ?thesis by simp
  qed
  have c5: "(\<forall>d \<in> set deps. issue_id d = id' issue) \<longrightarrow>
       (t \<in> depends_on_id ` set deps \<longleftrightarrow>
        (id' issue, t) \<in> (\<lambda>d. (issue_id d, depends_on_id d)) ` set deps)"
    by (auto simp: image_iff)
  from c0 c1 c2 c3 c4 c5 show ?thesis by (intro conjI)
qed

text \<open>
  The panel is open on \<open>B\<close>, whose draft holds the \<^verbatim>\<open>blocks\<close> edge to \<open>A\<close>. A
  \<^verbatim>\<open>related\<close> edge to \<open>A\<close> is refused as a duplicate and the list stays as it was; an
  edge to \<open>C\<close>, typed with a blank on either side, is appended behind the existing
  one with the trimmed target; an edge to an unknown id is refused; the store is the
  same after each.
\<close>

theorem handleAddDependency_checks_witness:
  "app_store (onAddDependency ''2025-06-01T00:00:00Z'' (Some ''B'') (exAppB ''A'' Related))
     = app_store (exAppB ''A'' Related) \<and>
   app_panel (onAddDependency ''2025-06-01T00:00:00Z'' (Some ''B'') (exAppB ''A'' Related))
     = (app_panel (exAppB ''A'' Related))\<lparr>error' := Some ''Dependency already exists''\<rparr> \<and>
   p_dependencies (asPartial exB3) = Some (Some [mkDep ''B'' ''A'' Blocks]) \<and>
   app_panel (onAddDependency ''2025-06-01T00:00:00Z'' (Some ''B'') (exAppB '' C '' Related))
     = (app_panel (exAppB '' C '' Related))
         \<lparr>editedIssue :=
            Some ((asPartial exB3)\<lparr>p_dependencies :=
              Some (Some [mkDep ''B'' ''A'' Blocks,
                Dependency ''B'' ''C'' Related ''2025-06-01T00:00:00Z'' ''system''])\<rparr>),
          newDependencyId := [], error' := None\<rparr> \<and>
   app_panel (onAddDependency ''2025-06-01T00:00:00Z'' (Some ''B'') (exAppB ''ghost'' Related))
     = (app_panel (exAppB ''ghost'' Related))\<lparr>error' := Some ''Issue ghost not found''\<rparr>"
proof -
  let ?now = "''2025-06-01T00:00:00Z''"
  have e: "editedIssue (app_panel (exAppB x Related)) = Some (asPartial exB3)" for x
    by (simp add: exAppB_def)
  have i: "panelIssue (issues (app_store (exAppB x Related))) (Some ''B'') = Some exB3" for x
    by (simp add: exAppB_def exColl3_def exB3_def panelIssue_def findIssue_def)
  have ds: "[mkDep ''B'' ''A'' Blocks] =
      (case p_dependencies (asPartial exB3) of Some (Some l) \<Rightarrow> l | _ \<Rightarrow> [])"
    by (simp add: asPartial_def exB3_def)
  have t: "''A'' = trim (newDependencyId (app_panel (exAppB ''A'' Related)))"
    "''C'' = trim (newDependencyId (app_panel (exAppB '' C '' Related)))"
    "''ghost'' = trim (newDependencyId (app_panel (exAppB ''ghost'' Related)))"
    by (simp_all add: exAppB_def trim_def isSpace_def)
  have ids: "id' ` set (issues (app_store (exAppB x Related))) = {''A'', ''B'', ''C''}" for x
    by (auto simp: exAppB_def exColl3_def exB3_def)
  have idB: "id' exB3 = ''B''" and tyR: "newDependencyType (app_panel (exAppB x Related)) = Related"
    for x
    by (simp_all add: exB3_def exAppB_def)
  note a = handleAddDependency_checks [OF e i ds t(1) refl, where now = ?now]
  note c = handleAddDependency_checks [OF e i ds t(2) refl, where now = ?now]
  note g = handleAddDependency_checks [OF e i ds t(3) refl, where now = ?now]
  have pd: "p_dependencies (asPartial exB3) = Some (Some [mkDep ''B'' ''A'' Blocks])"
    by (simp add: asPartial_def exB3_def)
  from a have a': "app_store (onAddDependency ?now (Some ''B'') (exAppB ''A'' Related))
       = app_store (exAppB ''A'' Related) \<and>
     app_panel (onAddDependency ?now (Some ''B'') (exAppB ''A'' Related))
       = (app_panel (exAppB ''A'' Related))\<lparr>error' := Some ''Dependency already exists''\<rparr>"
    by simp
  from c have c': "app_panel (onAddDependency ?now (Some ''B'') (exAppB '' C '' Related))
     = (app_panel (exAppB '' C '' Related))
         \<lparr>editedIssue :=
            Some ((asPartial exB3)\<lparr>p_dependencies :=
              Some (Some [mkDep ''B'' ''A'' Blocks,
                Dependency ''B'' ''C'' Related ?now ''system''])\<rparr>),
          newDependencyId := [], error' := None\<rparr>"
    by (simp add: ids idB tyR)
  from g have g': "app_panel (onAddDependency ?now (Some ''B'') (exAppB ''ghost'' Related))
     = (app_panel (exAppB ''ghost'' Related))\<lparr>error' := Some ''Issue ghost not found''\<rparr>"
    by (simp add: ids)
  from a' pd c' g' show ?thesis by (intro conjI) simp_all
qed

text \<open>
  Claim C8. Handling the same \<^verbatim>\<open>issue:updated\<close> message twice in a row leaves the
  store, and so its collection, as handling it once does. The handler replaces each
  record that has the id of the pushed record by the pushed record.
\<close>

theorem issue_updated_idempotent:
  "onmessage (IssueUpdated d) (onmessage (IssueUpdated d) st) = onmessage (IssueUpdated d) st \<and>
   issues (onmessage (IssueUpdated d) (onmessage (IssueUpdated d) st)) =
     issues (onmessage (IssueUpdated d) st) \<and>
   issues (onmessage (IssueUpdated d) st) =
     map (\<lambda>issue. if id' issue = id' d then d else issue) (issues st)"
  by simp

end
